theory Spec2Isabelle
  imports Main
begin

section \<open>Python values used by the admin module\<close>

text \<open>
  The module formats integers into messages with f-strings. \<open>str_int\<close> is Python's
  \<^verbatim>\<open>str\<close> on an unbounded integer: decimal digits, most significant first, with a
  leading minus sign for a negative number.
\<close>

definition digit_char :: "nat \<Rightarrow> char" where
  "digit_char d = ''0123456789'' ! d"

fun str_nat :: "nat \<Rightarrow> string" where
  "str_nat n = (if n < 10 then [digit_char n] else str_nat (n div 10) @ [digit_char (n mod 10)])"

declare str_nat.simps [simp del]

definition str_int :: "int \<Rightarrow> string" where
  "str_int i = (if i < 0 then CHR ''-'' # str_nat (nat (- i)) else str_nat (nat i))"

text \<open>Python's \<^verbatim>\<open>sep.join(parts)\<close>.\<close>

fun join :: "string \<Rightarrow> string list \<Rightarrow> string" where
  "join sep [] = []"
| "join sep [s] = s"
| "join sep (s # t # rest) = s @ sep @ join sep (t # rest)"

section \<open>Records, exceptions and effects\<close>

text \<open>
  A task record as far as this module reads or writes it: the primary key, the name, the
  enabled flag and the queue name. The three variants share these fields.
\<close>

record task =
  pk :: nat
  name :: string
  enabled :: bool
  queue :: string

text \<open>The two message levels the module uses (\<^verbatim>\<open>messages.INFO\<close>, \<^verbatim>\<open>messages.WARNING\<close>).\<close>

datatype level = INFO | WARNING

text \<open>Exceptions that leave a method of the module.\<close>

datatype exn =
    ValueError string
  | AttributeError string
  | Propagated string

text \<open>
  Everything a handler does is a call on a collaborator, in program order. A call on a
  record carries the in-memory object as it is at the moment of the call, so an attribute
  assigned before the call is visible in it. What a collaborator does inside the call
  (to the queue, to storage) is not part of the module; the calls are taken to return,
  and the section on storage gives the two that the disable and enable actions rest on,
  as the spec describes them. The one call whose failure the module handles, the fetch
  of the execution history, has its outcomes modelled below.
\<close>

datatype effect =
    Unschedule task
  | Save task
  | EnqueueToRun task
  | Migrate task
  | Delete task
  | MessageUser level string
  | LogWarn string

section \<open>Column and fieldset tables\<close>

text \<open>An entry of a \<^verbatim>\<open>fields\<close> tuple is a field name or a tuple of names shown on one row.\<close>

datatype field_entry = Field string | Row "string list"

text \<open>A fieldset is a title (\<^verbatim>\<open>None\<close> for the untitled one) and its \<^verbatim>\<open>fields\<close> tuple.\<close>

type_synonym fieldset = "string option \<times> field_entry list"

definition LIST_DISPLAY_EXTRA :: "(string \<times> string list) list" where
  "LIST_DISPLAY_EXTRA =
    [(''CronTask'',
        [''cron_string'', ''next_run'', ''successful_runs'', ''last_successful_run'',
         ''failed_runs'', ''last_failed_run'']),
     (''ScheduledTask'', [''scheduled_time'']),
     (''RepeatableTask'',
        [''scheduled_time'', ''interval_display'', ''successful_runs'', ''last_successful_run'',
         ''failed_runs'', ''last_failed_run''])]"

definition FIELDSET_EXTRA :: "(string \<times> field_entry list) list" where
  "FIELDSET_EXTRA =
    [(''CronTask'',
        [Field ''cron_string'', Field ''timeout'', Field ''result_ttl'',
         Row [''successful_runs'', ''last_successful_run''],
         Row [''failed_runs'', ''last_failed_run'']]),
     (''ScheduledTask'', [Field ''scheduled_time'', Field ''timeout'', Field ''result_ttl'']),
     (''RepeatableTask'',
        [Field ''scheduled_time'', Row [''interval'', ''interval_unit''], Field ''repeat'',
         Field ''timeout'', Field ''result_ttl'',
         Row [''successful_runs'', ''last_successful_run''],
         Row [''failed_runs'', ''last_failed_run'']])]"

definition get_message_bit :: "int \<Rightarrow> string" where
  "get_message_bit rows_updated =
     (if rows_updated = 1 then ''1 task was'' else str_int rows_updated @ '' tasks were'')"

subsection \<open>TaskAdmin: class attributes\<close>

definition list_display :: "string list" where
  "list_display =
     [''enabled'', ''name'', ''link_new_task'', ''job_id'', ''function_string'',
      ''is_scheduled'', ''queue'']"

definition fieldsets :: "fieldset list" where
  "fieldsets =
     [(None, [Field ''name'', Field ''callable'', Field ''enabled'', Field ''at_front'']),
      (Some ''RQ Settings'', [Field ''queue'', Field ''job_id''])]"

subsection \<open>TaskAdmin: permissions, columns, fieldsets\<close>

text \<open>
  A request as far as the module reads it: the query parameters (\<^verbatim>\<open>request.GET\<close>).
\<close>

record request =
  GET :: "string \<rightharpoonup> string"


text \<open>
  \<open>model_name\<close> is \<^verbatim>\<open>self.model.__name__\<close>. Membership in the dictionary is equality with
  one of its keys; the lookup after it cannot fail.
\<close>

definition get_list_display :: "string \<Rightarrow> request \<Rightarrow> exn + string list" where
  "get_list_display model_name req =
     (case map_of LIST_DISPLAY_EXTRA model_name of
        None \<Rightarrow> Inl (ValueError (''Unrecognized model '' @ model_name))
      | Some extra \<Rightarrow> Inr (list_display @ extra))"

definition get_fieldsets :: "string \<Rightarrow> request \<Rightarrow> exn + fieldset list" where
  "get_fieldsets model_name req =
     (case map_of FIELDSET_EXTRA model_name of
        None \<Rightarrow> Inl (ValueError (''Unrecognized model '' @ model_name))
      | Some extra \<Rightarrow> Inr (fieldsets @ [(Some ''Scheduling'', extra)]))"

subsection \<open>TaskAdmin: the detail page\<close>

text \<open>
  What \<^verbatim>\<open>get_job_executions_for_task\<close> does when called: it returns the execution
  records, raises an exception of one of the classes in \<^verbatim>\<open>ConnectionErrorTypes\<close>, or
  raises some other exception. The string is \<^verbatim>\<open>str(e)\<close>.
\<close>

datatype 'e fetched =
    Returned "'e list"
  | RaisedConnectionError string
  | RaisedOther string

text \<open>\<^verbatim>\<open>request.GET.get("p", 1)\<close> is the parameter's string, or the integer 1.\<close>

datatype page_number = PageInt int | PageStr string

text \<open>
  The paginator built by \<^verbatim>\<open>self.get_paginator(request, execution_list, per_page)\<close>; its
  \<^verbatim>\<open>count\<close> on a list is the list's length.
\<close>

record 'e paginator =
  object_list :: "'e list"
  per_page :: int

definition get_paginator :: "request \<Rightarrow> 'e list \<Rightarrow> int \<Rightarrow> 'e paginator" where
  "get_paginator req execution_list n = \<lparr>object_list = execution_list, per_page = n\<rparr>"

definition count :: "'e paginator \<Rightarrow> int" where
  "count p = int (length (object_list p))"

text \<open>Values stored in the template context.\<close>

datatype ('pg, 'rng) ctx_value =
    CBool bool
  | CStr string
  | CPage 'pg
  | CRange 'rng

type_synonym ('pg, 'rng) template_context = "string \<rightharpoonup> ('pg, 'rng) ctx_value"

text \<open>
  The operations of the web framework that \<^verbatim>\<open>change_view\<close> calls and whose code is not
  part of the module: the paginator's \<^verbatim>\<open>get_page\<close> and \<^verbatim>\<open>get_elided_page_range\<close>, the
  page's \<^verbatim>\<open>number\<close>, and the inherited \<^verbatim>\<open>change_view\<close> that renders the page.
\<close>

record ('e, 'pg, 'rng, 'resp) framework =
  get_page :: "'e paginator \<Rightarrow> page_number \<Rightarrow> 'pg"
  number :: "'pg \<Rightarrow> int"
  get_elided_page_range :: "'e paginator \<Rightarrow> int \<Rightarrow> 'rng"
  super_change_view :: "request \<Rightarrow> string \<Rightarrow> string \<Rightarrow> ('pg, 'rng) template_context \<Rightarrow> 'resp"

text \<open>
  \<open>get_object\<close> is \<^verbatim>\<open>self.get_object(request, object_id)\<close>, which is \<^verbatim>\<open>None\<close> when
  no record has that id; reading \<^verbatim>\<open>obj.queue\<close> then raises inside the \<^verbatim>\<open>try\<close>, and the
  \<^verbatim>\<open>except\<close> clause does not catch it. \<open>EXECUTIONS_IN_PAGE\<close> is
  \<^verbatim>\<open>SCHEDULER_CONFIG.EXECUTIONS_IN_PAGE\<close>. The result is the log written and either the
  exception that leaves the view or the response of the inherited view.
\<close>

definition change_view ::
  "('e, 'pg, 'rng, 'resp) framework \<Rightarrow> (string \<Rightarrow> task option) \<Rightarrow>
   (string \<Rightarrow> task \<Rightarrow> 'e fetched) \<Rightarrow> int \<Rightarrow>
   request \<Rightarrow> string \<Rightarrow> string \<Rightarrow> ('pg, 'rng) template_context option \<Rightarrow>
   effect list \<times> (exn + 'resp)" where
  "change_view fw get_object get_job_executions_for_task EXECUTIONS_IN_PAGE
       req object_id form_url extra_context =
     (let extra = (case extra_context of None \<Rightarrow> Map.empty | Some d \<Rightarrow> d) in
      case get_object object_id of
        None \<Rightarrow> ([], Inl (AttributeError ''queue''))
      | Some obj \<Rightarrow>
         (case get_job_executions_for_task (queue obj) obj of
            RaisedOther e \<Rightarrow> ([], Inl (Propagated e))
          | outcome \<Rightarrow>
             (let (logged, execution_list) =
                    (case outcome of
                       Returned xs \<Rightarrow> ([], xs)
                     | RaisedConnectionError e \<Rightarrow>
                         ([LogWarn (''Could not get job executions: '' @ e)], []));
                  paginator = get_paginator req execution_list EXECUTIONS_IN_PAGE;
                  page_number = (case GET req ''p'' of None \<Rightarrow> PageInt 1 | Some s \<Rightarrow> PageStr s);
                  page_obj = get_page fw paginator page_number;
                  page_range = get_elided_page_range fw paginator (number fw page_obj);
                  extra' = extra ++
                    [''pagination_required'' \<mapsto> CBool (count paginator > EXECUTIONS_IN_PAGE),
                     ''executions'' \<mapsto> CPage page_obj,
                     ''page_range'' \<mapsto> CRange page_range,
                     ''page_var'' \<mapsto> CStr ''p'']
              in (logged, Inr (super_change_view fw req object_id form_url extra')))))"

subsection \<open>TaskAdmin: deletion\<close>

text \<open>
  The inherited \<^verbatim>\<open>delete_model\<close> deletes the object and the inherited
  \<^verbatim>\<open>delete_queryset\<close> deletes every row of the queryset; each removal is a \<open>Delete\<close>.
\<close>

fun unschedule_each :: "task list \<Rightarrow> effect list \<Rightarrow> effect list" where
  "unschedule_each [] made = made"
| "unschedule_each (job # rest) made = unschedule_each rest (made @ [Unschedule job])"

definition delete_queryset :: "request \<Rightarrow> task list \<Rightarrow> effect list" where
  "delete_queryset req queryset = unschedule_each queryset [] @ map Delete queryset"

definition delete_model :: "request \<Rightarrow> task \<Rightarrow> effect list" where
  "delete_model req obj = [Unschedule obj, Delete obj]"

subsection \<open>TaskAdmin: bulk actions\<close>

text \<open>\<^verbatim>\<open>queryset.filter(enabled=v)\<close> keeps the rows whose flag is \<open>v\<close>, in order.\<close>

definition filter_enabled :: "bool \<Rightarrow> task list \<Rightarrow> task list" where
  "filter_enabled v queryset = filter (\<lambda>t. enabled t = v) queryset"

text \<open>
  Each loop carries \<^verbatim>\<open>rows_updated\<close> and the calls made so far. \<^verbatim>\<open>message_user\<close>
  without a level uses \<^verbatim>\<open>messages.INFO\<close>.
\<close>

fun migrate_loop :: "task list \<Rightarrow> int \<Rightarrow> effect list \<Rightarrow> int \<times> effect list" where
  "migrate_loop [] rows_updated made = (rows_updated, made)"
| "migrate_loop (obj # rest) rows_updated made =
     migrate_loop rest (rows_updated + 1) (made @ [Migrate obj])"

definition migrate_selected :: "request \<Rightarrow> task list \<Rightarrow> effect list" where
  "migrate_selected req queryset =
     (let (rows_updated, made) = migrate_loop queryset 0 [];
          lvl = (if rows_updated = 0 then WARNING else INFO)
      in made @ [MessageUser lvl
           (get_message_bit rows_updated @ '' successfully migrated to new model.'')])"

fun disable_loop :: "task list \<Rightarrow> int \<Rightarrow> effect list \<Rightarrow> int \<times> effect list" where
  "disable_loop [] rows_updated made = (rows_updated, made)"
| "disable_loop (obj # rest) rows_updated made =
     (let obj' = obj\<lparr>enabled := False\<rparr>
      in disable_loop rest (rows_updated + 1) (made @ [Unschedule obj']))"

definition disable_selected :: "request \<Rightarrow> task list \<Rightarrow> effect list" where
  "disable_selected req queryset =
     (let (rows_updated, made) = disable_loop (filter_enabled True queryset) 0 [];
          lvl = (if rows_updated = 0 then WARNING else INFO)
      in made @ [MessageUser lvl
           (get_message_bit rows_updated @ '' successfully disabled and unscheduled.'')])"

fun enable_loop :: "task list \<Rightarrow> int \<Rightarrow> effect list \<Rightarrow> int \<times> effect list" where
  "enable_loop [] rows_updated made = (rows_updated, made)"
| "enable_loop (obj # rest) rows_updated made =
     (let obj' = obj\<lparr>enabled := True\<rparr>
      in enable_loop rest (rows_updated + 1) (made @ [Save obj']))"

definition enable_selected :: "request \<Rightarrow> task list \<Rightarrow> effect list" where
  "enable_selected req queryset =
     (let (rows_updated, made) = enable_loop (filter_enabled False queryset) 0 [];
          lvl = (if rows_updated = 0 then WARNING else INFO)
      in made @ [MessageUser lvl
           (get_message_bit rows_updated @ '' successfully enabled and scheduled.'')])"

fun enqueue_loop :: "task list \<Rightarrow> string list \<Rightarrow> effect list \<Rightarrow> string list \<times> effect list" where
  "enqueue_loop [] task_names made = (task_names, made)"
| "enqueue_loop (t # rest) task_names made =
     enqueue_loop rest (task_names @ [name t]) (made @ [EnqueueToRun t])"

definition enqueue_job_now :: "request \<Rightarrow> task list \<Rightarrow> effect list" where
  "enqueue_job_now req queryset =
     (let (task_names, made) = enqueue_loop queryset [] []
      in made @ [MessageUser INFO
           (''The following jobs have been enqueued: '' @ join '', '' task_names)])"

section \<open>Observing a trace\<close>

text \<open>The record a collaborator call is made on, if it is made on one.\<close>

fun subject :: "effect \<Rightarrow> task option" where
  "subject (Unschedule t) = Some t"
| "subject (Save t) = Some t"
| "subject (EnqueueToRun t) = Some t"
| "subject (Migrate t) = Some t"
| "subject (Delete t) = Some t"
| "subject (MessageUser l s) = None"
| "subject (LogWarn s) = None"

text \<open>Sample inputs used to exercise the statements below.\<close>

definition request0 :: request where
  "request0 = \<lparr>GET = Map.empty\<rparr>"

definition task_a :: task where
  "task_a = \<lparr>pk = 1, name = ''nightly'', enabled = True, queue = ''default''\<rparr>"

definition task_b :: task where
  "task_b = \<lparr>pk = 2, name = ''weekly'', enabled = False, queue = ''default''\<rparr>"

definition framework0 :: "(nat, nat list, int list, (nat list, int list) ctx_value option list) framework" where
  "framework0 =
     \<lparr>get_page = (\<lambda>p n. take (nat (per_page p)) (object_list p)),
      number = (\<lambda>pg. 1),
      get_elided_page_range = (\<lambda>p k. [k]),
      super_change_view = (\<lambda>req object_id form_url ctx.
         [ctx ''pagination_required'', ctx ''executions'', ctx ''page_range'', ctx ''page_var''])\<rparr>"

section \<open>Storage and the schedule\<close>

text \<open>
  The state outside the process that the disable and enable actions are about: the stored
  task records by primary key, and the primary keys of the tasks that have a pending
  trigger in the external queue.
\<close>

record world =
  stored :: "nat \<rightharpoonup> task"
  scheduled :: "nat set"

text \<open>
  Modelled from the spec: the unschedule operation of the scheduling interface, whose code
  is in the task model module and not in this one. The spec describes it as removing a
  task's pending triggers from the external queue without deleting the task record, and
  lists it apart from the persistence layer.
\<close>

definition unschedule :: "task \<Rightarrow> world \<Rightarrow> world" where
  "unschedule t w = w\<lparr>scheduled := scheduled w - {pk t}\<rparr>"

text \<open>
  Modelled from the spec: the save operation of the persistence layer, whose code is in
  the task model module and not in this one. It stores the object's fields under its
  primary key; the spec expects saving to schedule the task as a side effect, which is
  taken here for an enabled task.
\<close>

definition save :: "task \<Rightarrow> world \<Rightarrow> world" where
  "save t w =
     w\<lparr>stored := (stored w)(pk t \<mapsto> t),
       scheduled := (if enabled t then insert (pk t) (scheduled w) else scheduled w)\<rparr>"

text \<open>
  What a call does to the stored records and the schedule. Messages and log lines leave
  both alone. The other calls (immediate run, migration, deletion) are not interpreted:
  no statement below runs them.
\<close>

fun perform :: "effect \<Rightarrow> world \<Rightarrow> world option" where
  "perform (Unschedule t) w = Some (unschedule t w)"
| "perform (Save t) w = Some (save t w)"
| "perform (MessageUser l s) w = Some w"
| "perform (LogWarn s) w = Some w"
| "perform (EnqueueToRun t) w = None"
| "perform (Migrate t) w = None"
| "perform (Delete t) w = None"

fun run :: "effect list \<Rightarrow> world \<Rightarrow> world option" where
  "run [] w = Some w"
| "run (e # es) w = (case perform e w of None \<Rightarrow> None | Some w' \<Rightarrow> run es w')"

section \<open>The loops in closed form\<close>

text \<open>
  Each loop appends one call per row and adds one to the counter per row, whatever the
  counter and the calls made before it were.
\<close>

lemma disable_loop_eq:
  "disable_loop xs n made =
     (n + int (length xs), made @ map (\<lambda>t. Unschedule (t\<lparr>enabled := False\<rparr>)) xs)"
  by (induction xs arbitrary: n made) (simp_all add: Let_def)

lemma enable_loop_eq:
  "enable_loop xs n made =
     (n + int (length xs), made @ map (\<lambda>t. Save (t\<lparr>enabled := True\<rparr>)) xs)"
  by (induction xs arbitrary: n made) (simp_all add: Let_def)

lemma migrate_loop_eq:
  "migrate_loop xs n made = (n + int (length xs), made @ map Migrate xs)"
  by (induction xs arbitrary: n made) simp_all

lemma enqueue_loop_eq:
  "enqueue_loop xs names made = (names @ map name xs, made @ map EnqueueToRun xs)"
  by (induction xs arbitrary: names made) simp_all

lemma unschedule_each_eq:
  "unschedule_each xs made = made @ map Unschedule xs"
  by (induction xs arbitrary: made) simp_all

lemma get_message_bit_0: "get_message_bit 0 = ''0 tasks were''"
  by (simp add: get_message_bit_def str_int_def str_nat.simps digit_char_def)

lemma get_message_bit_2: "get_message_bit 2 = ''2 tasks were''"
  by (simp add: get_message_bit_def str_int_def str_nat.simps digit_char_def)

lemma disable_selected_trace:
  "disable_selected req qs =
     map (\<lambda>t. Unschedule (t\<lparr>enabled := False\<rparr>)) (filter enabled qs) @
     [MessageUser (if filter enabled qs = [] then WARNING else INFO)
        (get_message_bit (int (length (filter enabled qs))) @
         '' successfully disabled and unscheduled.'')]"
  by (simp add: disable_selected_def filter_enabled_def disable_loop_eq)

lemma enable_selected_trace:
  "enable_selected req qs =
     map (\<lambda>t. Save (t\<lparr>enabled := True\<rparr>)) (filter (\<lambda>t. \<not> enabled t) qs) @
     [MessageUser (if filter (\<lambda>t. \<not> enabled t) qs = [] then WARNING else INFO)
        (get_message_bit (int (length (filter (\<lambda>t. \<not> enabled t) qs))) @
         '' successfully enabled and scheduled.'')]"
  by (simp add: enable_selected_def filter_enabled_def enable_loop_eq)

lemma migrate_selected_trace:
  "migrate_selected req qs =
     map Migrate qs @
     [MessageUser (if qs = [] then WARNING else INFO)
        (get_message_bit (int (length qs)) @ '' successfully migrated to new model.'')]"
  by (simp add: migrate_selected_def migrate_loop_eq)

lemma enqueue_job_now_trace:
  "enqueue_job_now req qs =
     map EnqueueToRun qs @
     [MessageUser INFO (''The following jobs have been enqueued: '' @ join '', '' (map name qs))]"
  by (simp add: enqueue_job_now_def enqueue_loop_eq)

lemma delete_queryset_trace:
  "delete_queryset req qs = map Unschedule qs @ map Delete qs"
  by (simp add: delete_queryset_def unschedule_each_eq)

lemma distinct_pk_other:
  assumes "distinct (map pk qs)" and "t \<in> set qs" and "u \<in> set qs" and "enabled u" and "\<not> enabled t"
  shows "pk u \<noteq> pk t"
proof
  assume "pk u = pk t"
  with assms(1-3) have "u = t"
    by (meson distinct_map inj_onD)
  with assms(4,5) show False by simp
qed

lemma run_unschedules:
  "\<exists>w'. run (map (\<lambda>t. Unschedule (f t)) ts @ [MessageUser l s]) w = Some w'
        \<and> stored w' = stored w
        \<and> scheduled w' = scheduled w - pk ` f ` set ts"
proof (induction ts arbitrary: w)
  case Nil
  show ?case by simp
next
  case (Cons t ts)
  from Cons.IH [of "unschedule (f t) w"]
  show ?case by (auto simp: unschedule_def)
qed

lemma str_nat_examples:
  "str_nat 0 = ''0'' \<and> str_nat 7 = ''7'' \<and> str_nat 10 = ''10'' \<and> str_nat 123 = ''123''"
  by (simp add: str_nat.simps digit_char_def)

section \<open>Bulk actions: disable and enable\<close>

text \<open>
  The calls of \<open>disable_selected\<close>. For every selection \<open>qs\<close> (rows with pairwise
  different primary keys) with \<open>k\<close> enabled rows, the handler clears the flag on the
  in-memory object of exactly those \<open>k\<close> rows and calls unschedule on each of them, in
  selection order, the object passed already carrying \<open>enabled = False\<close>; it then reports
  \<open>k\<close> in its message, at warning level when \<open>k = 0\<close>. No call of any kind is made on a
  row that was already disabled, and no call is a save.
\<close>

theorem disable_selected_effects:
  assumes "k = length (filter enabled qs)" and "distinct (map pk qs)"
  shows "disable_selected req qs =
           map (\<lambda>t. Unschedule (t\<lparr>enabled := False\<rparr>)) (filter enabled qs) @
           [MessageUser (if k = 0 then WARNING else INFO)
              (get_message_bit (int k) @ '' successfully disabled and unscheduled.'')]
       \<and> (\<forall>t \<in> set qs. \<not> enabled t \<longrightarrow>
            (\<forall>e \<in> set (disable_selected req qs). \<forall>u. subject e = Some u \<longrightarrow> pk u \<noteq> pk t))
       \<and> (\<forall>e \<in> set (disable_selected req qs). \<forall>u. e \<noteq> Save u)"
proof (intro conjI)
  show "disable_selected req qs =
           map (\<lambda>t. Unschedule (t\<lparr>enabled := False\<rparr>)) (filter enabled qs) @
           [MessageUser (if k = 0 then WARNING else INFO)
              (get_message_bit (int k) @ '' successfully disabled and unscheduled.'')]"
    using assms(1) by (simp add: disable_selected_trace)
next
  show "\<forall>t \<in> set qs. \<not> enabled t \<longrightarrow>
            (\<forall>e \<in> set (disable_selected req qs). \<forall>u. subject e = Some u \<longrightarrow> pk u \<noteq> pk t)"
  proof (intro ballI impI allI)
    fix t e u
    assume t: "t \<in> set qs" "\<not> enabled t"
      and e: "e \<in> set (disable_selected req qs)" and u: "subject e = Some u"
    from e u obtain v where v: "v \<in> set qs" "enabled v" "u = v\<lparr>enabled := False\<rparr>"
      by (auto simp: disable_selected_trace)
    from distinct_pk_other [OF assms(2) t(1) v(1) v(2) t(2)] v(3)
    show "pk u \<noteq> pk t" by simp
  qed
next
  show "\<forall>e \<in> set (disable_selected req qs). \<forall>u. e \<noteq> Save u"
    by (auto simp: disable_selected_trace)
qed

text \<open>The calls of the handler at a selection of one enabled and one disabled row.\<close>

theorem disable_selected_effects_witness:
  "(1::nat) = length (filter enabled [task_a, task_b]) \<and> distinct (map pk [task_a, task_b])
   \<and> disable_selected request0 [task_a, task_b] =
       [Unschedule (task_a\<lparr>enabled := False\<rparr>),
        MessageUser INFO ''1 task was successfully disabled and unscheduled.'']
   \<and> pk (task_a\<lparr>enabled := False\<rparr>) \<noteq> pk task_b"
  using disable_selected_effects [of 1 "[task_a, task_b]" request0]
  by (simp add: task_a_def task_b_def get_message_bit_def)

text \<open>
  Run against storage, the calls of \<open>disable_selected\<close> leave every stored record as it
  was, whatever the selection: the tasks that were enabled lose their place in the
  schedule and nothing else changes.
\<close>

lemma disable_selected_leaves_storage:
  "\<exists>w'. run (disable_selected req qs) w = Some w'
        \<and> stored w' = stored w
        \<and> scheduled w' = scheduled w - pk ` {t \<in> set qs. enabled t}"
proof -
  have "pk ` (\<lambda>t. t\<lparr>enabled := False\<rparr>) ` set (filter enabled qs) = pk ` {t \<in> set qs. enabled t}"
    by (auto simp: image_iff)
  with run_unschedules [of "\<lambda>t. t\<lparr>enabled := False\<rparr>" "filter enabled qs" _ _ w]
  show ?thesis
    by (simp add: disable_selected_trace)
qed


text \<open>
  C7. For every selection \<open>qs\<close> (rows with pairwise different primary keys) with \<open>k\<close>
  disabled rows, \<open>enable_selected\<close> sets the flag on exactly those \<open>k\<close> rows and saves each
  of them, in selection order, the object saved carrying \<open>enabled = True\<close>; it reports
  \<open>k\<close>, at warning level when \<open>k = 0\<close>. No call is made on a row that was already enabled,
  and the handler makes no call besides the saves and the message: it does not schedule.
\<close>

theorem enable_selected_effects:
  assumes "k = length (filter (\<lambda>t. \<not> enabled t) qs)" and "distinct (map pk qs)"
  shows "enable_selected req qs =
           map (\<lambda>t. Save (t\<lparr>enabled := True\<rparr>)) (filter (\<lambda>t. \<not> enabled t) qs) @
           [MessageUser (if k = 0 then WARNING else INFO)
              (get_message_bit (int k) @ '' successfully enabled and scheduled.'')]
       \<and> (\<forall>t \<in> set qs. enabled t \<longrightarrow>
            (\<forall>e \<in> set (enable_selected req qs). \<forall>u. subject e = Some u \<longrightarrow> pk u \<noteq> pk t))
       \<and> (\<forall>e \<in> set (enable_selected req qs).
            (\<exists>u. e = Save u) \<or> (\<exists>l s. e = MessageUser l s))"
proof (intro conjI)
  show "enable_selected req qs =
           map (\<lambda>t. Save (t\<lparr>enabled := True\<rparr>)) (filter (\<lambda>t. \<not> enabled t) qs) @
           [MessageUser (if k = 0 then WARNING else INFO)
              (get_message_bit (int k) @ '' successfully enabled and scheduled.'')]"
    using assms(1) by (simp add: enable_selected_trace)
next
  show "\<forall>t \<in> set qs. enabled t \<longrightarrow>
            (\<forall>e \<in> set (enable_selected req qs). \<forall>u. subject e = Some u \<longrightarrow> pk u \<noteq> pk t)"
  proof (intro ballI impI allI)
    fix t e u
    assume t: "t \<in> set qs" "enabled t"
      and e: "e \<in> set (enable_selected req qs)" and u: "subject e = Some u"
    from e u obtain v where v: "v \<in> set qs" "\<not> enabled v" "u = v\<lparr>enabled := True\<rparr>"
      by (auto simp: enable_selected_trace)
    from distinct_pk_other [OF assms(2) v(1) t(1) t(2) v(2)] v(3)
    show "pk u \<noteq> pk t" by simp
  qed
next
  show "\<forall>e \<in> set (enable_selected req qs).
            (\<exists>u. e = Save u) \<or> (\<exists>l s. e = MessageUser l s)"
    by (auto simp: enable_selected_trace)
qed

text \<open>The statement of C7 at a selection of one enabled and one disabled row.\<close>

theorem enable_selected_effects_witness:
  "(1::nat) = length (filter (\<lambda>t. \<not> enabled t) [task_a, task_b])
   \<and> distinct (map pk [task_a, task_b])
   \<and> enable_selected request0 [task_a, task_b] =
       [Save (task_b\<lparr>enabled := True\<rparr>),
        MessageUser INFO ''1 task was successfully enabled and scheduled.'']
   \<and> pk (task_b\<lparr>enabled := True\<rparr>) \<noteq> pk task_a"
  using enable_selected_effects [of 1 "[task_a, task_b]" request0]
  by (simp add: task_a_def task_b_def get_message_bit_def)

section \<open>Bulk actions: messages\<close>

text \<open>
  C2 as stated covers all four handlers. \<open>enqueue_job_now\<close> reports no count and never
  warns: on the empty selection its message is at the informational level, and on a
  selection of one row the message lists the name instead of saying \<open>1 task was\<close>.
\<close>

theorem enqueue_job_now_message_counterexample:
  "enqueue_job_now request0 [] =
     [MessageUser INFO ''The following jobs have been enqueued: '']
   \<and> enqueue_job_now request0 [task_a] =
     [EnqueueToRun task_a, MessageUser INFO ''The following jobs have been enqueued: nightly'']"
  by (simp add: enqueue_job_now_trace task_a_def)

text \<open>
  C2, as the code has it. For every selection, the last thing each of \<open>migrate_selected\<close>,
  \<open>disable_selected\<close> and \<open>enable_selected\<close> does is to send one message: the count of
  rows it handled (all rows, the enabled rows, the disabled rows) rendered by
  \<open>get_message_bit\<close> and followed by the handler's own wording, at warning level when the
  count is zero and at the informational level otherwise. \<open>get_message_bit\<close> is
  \<open>1 task was\<close> for one and the decimal count followed by \<open>tasks were\<close> for any other
  number. \<open>enqueue_job_now\<close> sends the list of names at the informational level, whatever
  the selection.
\<close>

theorem counting_handlers_message:
  "last (migrate_selected req qs) =
     MessageUser (if length qs = 0 then WARNING else INFO)
       (get_message_bit (int (length qs)) @ '' successfully migrated to new model.'')
   \<and> last (disable_selected req qs) =
     MessageUser (if length (filter enabled qs) = 0 then WARNING else INFO)
       (get_message_bit (int (length (filter enabled qs))) @
        '' successfully disabled and unscheduled.'')
   \<and> last (enable_selected req qs) =
     MessageUser (if length (filter (\<lambda>t. \<not> enabled t) qs) = 0 then WARNING else INFO)
       (get_message_bit (int (length (filter (\<lambda>t. \<not> enabled t) qs))) @
        '' successfully enabled and scheduled.'')
   \<and> last (enqueue_job_now req qs) =
     MessageUser INFO (''The following jobs have been enqueued: '' @ join '', '' (map name qs))
   \<and> get_message_bit 1 = ''1 task was''
   \<and> (n \<noteq> 1 \<longrightarrow> get_message_bit n = str_int n @ '' tasks were'')"
  by (simp add: migrate_selected_trace disable_selected_trace enable_selected_trace
      enqueue_job_now_trace get_message_bit_def)

text \<open>The statement at the empty selection, at one enabled row, and at a mixed selection.\<close>

theorem counting_handlers_message_witness:
  "last (migrate_selected request0 []) =
     MessageUser WARNING ''0 tasks were successfully migrated to new model.''
   \<and> last (disable_selected request0 [task_a, task_b]) =
     MessageUser INFO ''1 task was successfully disabled and unscheduled.''
   \<and> last (enable_selected request0 [task_a]) =
     MessageUser WARNING ''0 tasks were successfully enabled and scheduled.''
   \<and> (0::int) \<noteq> 1 \<and> get_message_bit 0 = ''0 tasks were''"
  using counting_handlers_message [of request0 "[]" 0]
    counting_handlers_message [of request0 "[task_a, task_b]" 0]
    counting_handlers_message [of request0 "[task_a]" 0]
  by (simp add: task_a_def task_b_def get_message_bit_def str_int_def str_nat.simps digit_char_def)

text \<open>
  C6. For every selection, \<open>enqueue_job_now\<close> calls the immediate-run operation on every
  row, enabled or not, in selection order, and then sends one message that lists the name
  of every row in the same order, separated by a comma and a space.
\<close>

theorem enqueue_job_now_effects:
  "enqueue_job_now req qs =
     map EnqueueToRun qs @
     [MessageUser INFO (''The following jobs have been enqueued: '' @ join '', '' (map name qs))]"
  by (simp add: enqueue_job_now_def enqueue_loop_eq)

text \<open>The statement of C6 at a selection of one enabled and one disabled row.\<close>

theorem enqueue_job_now_effects_witness:
  "enqueue_job_now request0 [task_a, task_b] =
     [EnqueueToRun task_a, EnqueueToRun task_b,
      MessageUser INFO ''The following jobs have been enqueued: nightly, weekly'']
   \<and> enabled task_a \<and> \<not> enabled task_b"
  using enqueue_job_now_effects [of request0 "[task_a, task_b]"]
  by (simp add: task_a_def task_b_def)

section \<open>Columns, fieldsets and permissions\<close>

text \<open>
  C3. For each of the three variants the list columns are the seven base columns followed
  by the variant's extra columns, and the fieldsets are the two base fieldsets followed by
  one fieldset titled \<open>Scheduling\<close> that holds the variant's extra fields, in the order of
  the tables.
\<close>

theorem variant_columns_and_fieldsets:
  "get_list_display ''CronTask'' req =
     Inr (list_display @
       [''cron_string'', ''next_run'', ''successful_runs'', ''last_successful_run'',
        ''failed_runs'', ''last_failed_run''])
   \<and> get_list_display ''ScheduledTask'' req = Inr (list_display @ [''scheduled_time''])
   \<and> get_list_display ''RepeatableTask'' req =
     Inr (list_display @
       [''scheduled_time'', ''interval_display'', ''successful_runs'', ''last_successful_run'',
        ''failed_runs'', ''last_failed_run''])
   \<and> list_display =
       [''enabled'', ''name'', ''link_new_task'', ''job_id'', ''function_string'',
        ''is_scheduled'', ''queue'']
   \<and> get_fieldsets ''CronTask'' req =
     Inr (fieldsets @
       [(Some ''Scheduling'',
         [Field ''cron_string'', Field ''timeout'', Field ''result_ttl'',
          Row [''successful_runs'', ''last_successful_run''],
          Row [''failed_runs'', ''last_failed_run'']])])
   \<and> get_fieldsets ''ScheduledTask'' req =
     Inr (fieldsets @
       [(Some ''Scheduling'',
         [Field ''scheduled_time'', Field ''timeout'', Field ''result_ttl''])])
   \<and> get_fieldsets ''RepeatableTask'' req =
     Inr (fieldsets @
       [(Some ''Scheduling'',
         [Field ''scheduled_time'', Row [''interval'', ''interval_unit''], Field ''repeat'',
          Field ''timeout'', Field ''result_ttl'',
          Row [''successful_runs'', ''last_successful_run''],
          Row [''failed_runs'', ''last_failed_run'']])])
   \<and> fieldsets =
       [(None, [Field ''name'', Field ''callable'', Field ''enabled'', Field ''at_front'']),
        (Some ''RQ Settings'', [Field ''queue'', Field ''job_id''])]"
  by (simp add: get_list_display_def get_fieldsets_def LIST_DISPLAY_EXTRA_def
      FIELDSET_EXTRA_def list_display_def fieldsets_def)

text \<open>
  C8. For a model whose name is none of \<open>CronTask\<close>, \<open>ScheduledTask\<close>, \<open>RepeatableTask\<close>,
  both \<open>get_list_display\<close> and \<open>get_fieldsets\<close> raise \<open>ValueError\<close> and return nothing.
\<close>

theorem unrecognized_model_raises:
  assumes "model_name \<notin> {''CronTask'', ''ScheduledTask'', ''RepeatableTask''}"
  shows "get_list_display model_name req = Inl (ValueError (''Unrecognized model '' @ model_name))
       \<and> get_fieldsets model_name req = Inl (ValueError (''Unrecognized model '' @ model_name))"
  using assms
  by (simp add: get_list_display_def get_fieldsets_def LIST_DISPLAY_EXTRA_def FIELDSET_EXTRA_def)

text \<open>The statement of C8 at the model name \<open>Task\<close>.\<close>

theorem unrecognized_model_raises_witness:
  "''Task'' \<notin> {''CronTask'', ''ScheduledTask'', ''RepeatableTask''}
   \<and> get_list_display ''Task'' request0 = Inl (ValueError ''Unrecognized model Task'')
   \<and> get_fieldsets ''Task'' request0 = Inl (ValueError ''Unrecognized model Task'')"
  using unrecognized_model_raises [of "''Task''" request0]
  by simp


section \<open>Deletion\<close>

text \<open>
  C5. On both deletion paths, the single object (\<open>delete_model\<close>) and the queryset
  (\<open>delete_queryset\<close>), every removal of a record from storage comes after a call of
  unschedule on that same record: whenever the \<open>i\<close>-th effect is the deletion of \<open>t\<close>, an
  earlier effect is the unschedule of \<open>t\<close>.
\<close>

theorem unschedule_precedes_delete:
  assumes "tr = delete_model req obj \<or> tr = delete_queryset req qs"
      and "i < length tr" and "tr ! i = Delete t"
  shows "\<exists>j<i. tr ! j = Unschedule t"
  using assms(1)
proof
  assume tr: "tr = delete_model req obj"
  with assms(2) have "i = 0 \<or> i = 1"
    by (auto simp: delete_model_def)
  with tr assms(3) have "i = 1" "t = obj"
    by (auto simp: delete_model_def)
  with tr show ?thesis
    by (auto simp: delete_model_def)
next
  assume tr: "tr = delete_queryset req qs"
  let ?n = "length qs"
  have eq: "tr = map Unschedule qs @ map Delete qs"
    using tr by (simp add: delete_queryset_trace)
  have "\<not> i < ?n"
  proof
    assume "i < ?n"
    then have "tr ! i = Unschedule (qs ! i)"
      by (simp add: eq nth_append)
    with assms(3) show False by simp
  qed
  then have ge: "?n \<le> i" by simp
  from assms(2) eq have lt: "i < ?n + ?n" by simp
  from ge lt have j: "i - ?n < ?n" "i - ?n < i" by arith+
  from ge lt have "tr ! i = Delete (qs ! (i - ?n))"
    by (simp add: eq nth_append)
  with assms(3) have t: "t = qs ! (i - ?n)" by simp
  from j(1) have "tr ! (i - ?n) = Unschedule (qs ! (i - ?n))"
    by (simp add: eq nth_append)
  with t j(2) show ?thesis by blast
qed

text \<open>
  The statement of C5 at a queryset of two rows, for the deletion that comes last, and at a
  single object.
\<close>

theorem unschedule_precedes_delete_witness:
  "delete_queryset request0 [task_a, task_b] =
     [Unschedule task_a, Unschedule task_b, Delete task_a, Delete task_b]
   \<and> (3::nat) < length (delete_queryset request0 [task_a, task_b])
   \<and> delete_queryset request0 [task_a, task_b] ! 3 = Delete task_b
   \<and> (\<exists>j<3. delete_queryset request0 [task_a, task_b] ! j = Unschedule task_b)
   \<and> delete_model request0 task_a = [Unschedule task_a, Delete task_a]
   \<and> (\<exists>j<1. delete_model request0 task_a ! j = Unschedule task_a)"
proof -
  have tr: "delete_queryset request0 [task_a, task_b] =
     [Unschedule task_a, Unschedule task_b, Delete task_a, Delete task_b]"
    by (simp add: delete_queryset_trace)
  have len: "(3::nat) < length (delete_queryset request0 [task_a, task_b])"
    by (simp add: tr)
  have at: "delete_queryset request0 [task_a, task_b] ! 3 = Delete task_b"
    by (simp add: tr)
  have m: "delete_model request0 task_a = [Unschedule task_a, Delete task_a]"
    by (simp add: delete_model_def)
  have "\<exists>j<3. delete_queryset request0 [task_a, task_b] ! j = Unschedule task_b"
    using unschedule_precedes_delete [of "delete_queryset request0 [task_a, task_b]"
        request0 task_a "[task_a, task_b]" 3 task_b] len at
    by blast
  moreover have "\<exists>j<1. delete_model request0 task_a ! j = Unschedule task_a"
    using unschedule_precedes_delete [of "delete_model request0 task_a"
        request0 task_a "[]" 1 task_a] m
    by simp
  ultimately show ?thesis using tr len at m by blast
qed

section \<open>The detail page\<close>

text \<open>
  What \<open>change_view\<close> does when the record exists and the fetch returns a list, and when
  the fetch raises a connection error.
\<close>

lemma change_view_Returned:
  assumes "get_object object_id = Some obj"
      and "fetch (queue obj) obj = Returned xs"
  shows "change_view fw get_object fetch n req object_id form_url extra_context =
     ([],
      Inr (super_change_view fw req object_id form_url
        ((case extra_context of None \<Rightarrow> Map.empty | Some d \<Rightarrow> d) ++
         [''pagination_required'' \<mapsto> CBool (n < int (length xs)),
          ''executions'' \<mapsto>
             CPage (get_page fw \<lparr>object_list = xs, per_page = n\<rparr>
               (case GET req ''p'' of None \<Rightarrow> PageInt 1 | Some s \<Rightarrow> PageStr s)),
          ''page_range'' \<mapsto>
             CRange (get_elided_page_range fw \<lparr>object_list = xs, per_page = n\<rparr>
               (number fw (get_page fw \<lparr>object_list = xs, per_page = n\<rparr>
                 (case GET req ''p'' of None \<Rightarrow> PageInt 1 | Some s \<Rightarrow> PageStr s)))),
          ''page_var'' \<mapsto> CStr ''p''])))"
  using assms
  by (simp add: change_view_def Let_def count_def get_paginator_def)

lemma change_view_ConnectionError:
  assumes "get_object object_id = Some obj"
      and "fetch (queue obj) obj = RaisedConnectionError e"
  shows "change_view fw get_object fetch n req object_id form_url extra_context =
     ([LogWarn (''Could not get job executions: '' @ e)],
      Inr (super_change_view fw req object_id form_url
        ((case extra_context of None \<Rightarrow> Map.empty | Some d \<Rightarrow> d) ++
         [''pagination_required'' \<mapsto> CBool (n < 0),
          ''executions'' \<mapsto>
             CPage (get_page fw \<lparr>object_list = [], per_page = n\<rparr>
               (case GET req ''p'' of None \<Rightarrow> PageInt 1 | Some s \<Rightarrow> PageStr s)),
          ''page_range'' \<mapsto>
             CRange (get_elided_page_range fw \<lparr>object_list = [], per_page = n\<rparr>
               (number fw (get_page fw \<lparr>object_list = [], per_page = n\<rparr>
                 (case GET req ''p'' of None \<Rightarrow> PageInt 1 | Some s \<Rightarrow> PageStr s)))),
          ''page_var'' \<mapsto> CStr ''p''])))"
  using assms
  by (simp add: change_view_def Let_def count_def get_paginator_def)

text \<open>
  C4. When the record exists and the execution-history fetch raises a connection-class
  error, \<open>change_view\<close> logs one warning that carries the error's text, goes on with the
  empty list in place of the history, and returns what the inherited view renders: the
  result is the response that an empty history would have given, built on the page taken
  from a paginator over the empty list. No exception leaves the view.
\<close>

theorem change_view_connection_error:
  assumes "get_object object_id = Some obj"
      and "fetch (queue obj) obj = RaisedConnectionError e"
  shows "fst (change_view fw get_object fetch n req object_id form_url extra_context) =
           [LogWarn (''Could not get job executions: '' @ e)]
       \<and> snd (change_view fw get_object fetch n req object_id form_url extra_context) =
           snd (change_view fw get_object (\<lambda>q t. Returned []) n req object_id form_url
                  extra_context)
       \<and> (\<exists>ctx. snd (change_view fw get_object fetch n req object_id form_url extra_context) =
             Inr (super_change_view fw req object_id form_url ctx)
           \<and> ctx ''executions'' =
               Some (CPage (get_page fw \<lparr>object_list = [], per_page = n\<rparr>
                 (case GET req ''p'' of None \<Rightarrow> PageInt 1 | Some s \<Rightarrow> PageStr s))))"
proof (intro conjI)
  have a: "change_view fw get_object fetch n req object_id form_url extra_context =
     ([LogWarn (''Could not get job executions: '' @ e)],
      Inr (super_change_view fw req object_id form_url
        ((case extra_context of None \<Rightarrow> Map.empty | Some d \<Rightarrow> d) ++
         [''pagination_required'' \<mapsto> CBool (n < 0),
          ''executions'' \<mapsto>
             CPage (get_page fw \<lparr>object_list = [], per_page = n\<rparr>
               (case GET req ''p'' of None \<Rightarrow> PageInt 1 | Some s \<Rightarrow> PageStr s)),
          ''page_range'' \<mapsto>
             CRange (get_elided_page_range fw \<lparr>object_list = [], per_page = n\<rparr>
               (number fw (get_page fw \<lparr>object_list = [], per_page = n\<rparr>
                 (case GET req ''p'' of None \<Rightarrow> PageInt 1 | Some s \<Rightarrow> PageStr s)))),
          ''page_var'' \<mapsto> CStr ''p''])))"
    using assms by (rule change_view_ConnectionError)
  have b: "snd (change_view fw get_object (\<lambda>q t. Returned []) n req object_id form_url
                  extra_context) =
      Inr (super_change_view fw req object_id form_url
        ((case extra_context of None \<Rightarrow> Map.empty | Some d \<Rightarrow> d) ++
         [''pagination_required'' \<mapsto> CBool (n < 0),
          ''executions'' \<mapsto>
             CPage (get_page fw \<lparr>object_list = [], per_page = n\<rparr>
               (case GET req ''p'' of None \<Rightarrow> PageInt 1 | Some s \<Rightarrow> PageStr s)),
          ''page_range'' \<mapsto>
             CRange (get_elided_page_range fw \<lparr>object_list = [], per_page = n\<rparr>
               (number fw (get_page fw \<lparr>object_list = [], per_page = n\<rparr>
                 (case GET req ''p'' of None \<Rightarrow> PageInt 1 | Some s \<Rightarrow> PageStr s)))),
          ''page_var'' \<mapsto> CStr ''p'']))"
    using assms(1) by (simp add: change_view_def Let_def count_def get_paginator_def)
  show "fst (change_view fw get_object fetch n req object_id form_url extra_context) =
           [LogWarn (''Could not get job executions: '' @ e)]"
    by (simp add: a)
  show "snd (change_view fw get_object fetch n req object_id form_url extra_context) =
           snd (change_view fw get_object (\<lambda>q t. Returned []) n req object_id form_url
                  extra_context)"
    by (simp add: a b)
  show "\<exists>ctx. snd (change_view fw get_object fetch n req object_id form_url extra_context) =
             Inr (super_change_view fw req object_id form_url ctx)
           \<and> ctx ''executions'' =
               Some (CPage (get_page fw \<lparr>object_list = [], per_page = n\<rparr>
                 (case GET req ''p'' of None \<Rightarrow> PageInt 1 | Some s \<Rightarrow> PageStr s)))"
    unfolding a snd_conv
    by (rule exI, rule conjI, rule refl) simp
qed

text \<open>
  The statement of C4 at a record whose fetch is refused, with a page size of 20 and a
  sample framework that shows the four context entries it is handed.
\<close>

theorem change_view_connection_error_witness:
  "(\<lambda>oid. if oid = ''1'' then Some task_a else None) ''1'' = Some task_a
   \<and> (\<lambda>q t. RaisedConnectionError ''refused'') (queue task_a) task_a =
        (RaisedConnectionError ''refused'' :: nat fetched)
   \<and> change_view framework0 (\<lambda>oid. if oid = ''1'' then Some task_a else None)
        (\<lambda>q t. RaisedConnectionError ''refused'') 20 request0 ''1'' '''' None =
       ([LogWarn ''Could not get job executions: refused''],
        Inr [Some (CBool False), Some (CPage []), Some (CRange [1]), Some (CStr ''p'')])"
  using change_view_connection_error [of "\<lambda>oid. if oid = ''1'' then Some task_a else None" "''1''"
      task_a "\<lambda>q t. RaisedConnectionError ''refused''" "''refused''" framework0 20 request0 "''''" None]
  by (simp add: change_view_def Let_def count_def get_paginator_def framework0_def request0_def)

text \<open>
  C10. When the record exists and the fetch returns \<open>xs\<close>, the inherited view is handed a
  context whose \<open>pagination_required\<close> entry is true exactly when the number of execution
  records is greater than the page size \<open>n\<close>; with exactly \<open>n\<close> records it is false.
\<close>

theorem pagination_required_iff:
  assumes "get_object object_id = Some obj"
      and "fetch (queue obj) obj = Returned xs"
  shows "\<exists>ctx. change_view fw get_object fetch n req object_id form_url extra_context =
           ([], Inr (super_change_view fw req object_id form_url ctx))
         \<and> ctx ''pagination_required'' = Some (CBool (n < int (length xs)))
         \<and> (int (length xs) = n \<longrightarrow> ctx ''pagination_required'' = Some (CBool False))"
proof -
  have a: "change_view fw get_object fetch n req object_id form_url extra_context =
     ([],
      Inr (super_change_view fw req object_id form_url
        ((case extra_context of None \<Rightarrow> Map.empty | Some d \<Rightarrow> d) ++
         [''pagination_required'' \<mapsto> CBool (n < int (length xs)),
          ''executions'' \<mapsto>
             CPage (get_page fw \<lparr>object_list = xs, per_page = n\<rparr>
               (case GET req ''p'' of None \<Rightarrow> PageInt 1 | Some s \<Rightarrow> PageStr s)),
          ''page_range'' \<mapsto>
             CRange (get_elided_page_range fw \<lparr>object_list = xs, per_page = n\<rparr>
               (number fw (get_page fw \<lparr>object_list = xs, per_page = n\<rparr>
                 (case GET req ''p'' of None \<Rightarrow> PageInt 1 | Some s \<Rightarrow> PageStr s)))),
          ''page_var'' \<mapsto> CStr ''p''])))"
    using assms by (rule change_view_Returned)
  show ?thesis
    unfolding a
    by (rule exI, rule conjI, rule refl) simp
qed

text \<open>
  The statement of C10 at two execution records, with a page size of 2 (one full page, no
  pagination) and of 1 (pagination).
\<close>

theorem pagination_required_iff_witness:
  "(\<lambda>oid. if oid = ''1'' then Some task_a else None) ''1'' = Some task_a
   \<and> (\<lambda>q t. Returned [5, 6]) (queue task_a) task_a = (Returned [5, 6] :: nat fetched)
   \<and> int (length [5::nat, 6]) = 2
   \<and> change_view framework0 (\<lambda>oid. if oid = ''1'' then Some task_a else None)
        (\<lambda>q t. Returned [5, 6]) 2 request0 ''1'' '''' None =
       ([], Inr [Some (CBool False), Some (CPage [5, 6]), Some (CRange [1]), Some (CStr ''p'')])
   \<and> change_view framework0 (\<lambda>oid. if oid = ''1'' then Some task_a else None)
        (\<lambda>q t. Returned [5, 6]) 1 request0 ''1'' '''' None =
       ([], Inr [Some (CBool True), Some (CPage [5]), Some (CRange [1]), Some (CStr ''p'')])"
  using pagination_required_iff [of "\<lambda>oid. if oid = ''1'' then Some task_a else None" "''1''"
      task_a "\<lambda>q t. Returned [5, 6]" "[5, 6]" framework0 2 request0 "''''" None]
  by (simp add: change_view_def Let_def count_def get_paginator_def framework0_def request0_def)

end
